theory Spec2Isabelle
  imports Main
begin

unbundle bit_operations_syntax

section \<open>Library functions the authenticator calls\<close>

text \<open>
  A Go \<open>string\<close> and a Go \<open>[]byte\<close> are both sequences of bytes, and the conversions
  \<open>[]byte(s)\<close> and \<open>string(b)\<close> keep the bytes.  An Isabelle \<open>char\<close> is a byte, so both
  types are \<open>char list\<close> here and the conversions disappear.
\<close>

subsection \<open>Package strings\<close>

text \<open>\<open>strings.HasPrefix(s, prefix)\<close>: \<open>len(s) >= len(prefix) && s[:len(prefix)] == prefix\<close>.\<close>

definition HasPrefix :: "string \<Rightarrow> string \<Rightarrow> bool" where
  "HasPrefix s pre = (length pre \<le> length s \<and> take (length pre) s = pre)"

definition HasSuffix :: "string \<Rightarrow> string \<Rightarrow> bool" where
  "HasSuffix s suf = (length suf \<le> length s \<and> drop (length s - length suf) s = suf)"

definition TrimPrefix :: "string \<Rightarrow> string \<Rightarrow> string" where
  "TrimPrefix s pre = (if HasPrefix s pre then drop (length pre) s else s)"

definition TrimSuffix :: "string \<Rightarrow> string \<Rightarrow> string" where
  "TrimSuffix s suf = (if HasSuffix s suf then take (length s - length suf) s else s)"

text \<open>
  \<open>strings.Split(s, sep)\<close> for a separator of one byte: the pieces between the
  separators, in order; a string without separator (the empty string too) is one piece.
\<close>

fun Split :: "string \<Rightarrow> char \<Rightarrow> string list" where
  "Split [] sep = [[]]"
| "Split (c # cs) sep =
     (if c = sep then [] # Split cs sep
      else (case Split cs sep of
              [] \<Rightarrow> [[c]]
            | p # ps \<Rightarrow> (c # p) # ps))"

text \<open>
  A slice expression \<open>s[n:]\<close>.  Go panics (slice bounds out of range) when \<open>n > len(s)\<close>;
  that is the value \<open>None\<close>.
\<close>

definition slice_from :: "string \<Rightarrow> nat \<Rightarrow> string option" where
  "slice_from s n = (if n \<le> length s then Some (drop n s) else None)"

subsection \<open>Package encoding/hex\<close>

text \<open>
  Bytes and machine words are integers here, with the wrap-around of the machine
  arithmetic written out.  \<open>byte v\<close> is Go's conversion \<open>byte(v)\<close>: the low eight bits.
\<close>

definition byte :: "int \<Rightarrow> char" where
  "byte v = char_of (v mod 256)"

definition hextable :: string where
  "hextable = ''0123456789abcdef''"

definition hex_byte :: "char \<Rightarrow> string" where
  "hex_byte c =
     (let v = (of_char c :: int)
      in [hextable ! nat (v div 16), hextable ! nat (v mod 16)])"

definition hex_EncodeToString :: "string \<Rightarrow> string" where
  "hex_EncodeToString src = concat (map hex_byte src)"

subsection \<open>Package encoding/base64, the standard encoding\<close>

definition encodeStd :: string where
  "encodeStd = ''ABCDEFGHIJKLMNOPQRSTUVWXYZabcdefghijklmnopqrstuvwxyz0123456789+/''"

text \<open>The character for the six bits of \<open>v\<close> from bit \<open>sh\<close> on: \<open>encode[v>>sh&0x3F]\<close>.\<close>

definition enc6 :: "int \<Rightarrow> nat \<Rightarrow> char" where
  "enc6 v sh = encodeStd ! nat ((v div 2 ^ sh) mod 64)"

text \<open>
  \<open>base64.StdEncoding.EncodeToString\<close>: three bytes give four characters; a last group
  of one or two bytes is padded with \<open>=\<close>.
\<close>

fun base64_EncodeToString :: "string \<Rightarrow> string" where
  "base64_EncodeToString [] = []"
| "base64_EncodeToString [a] =
     (let v = of_char a * 2 ^ 16
      in [enc6 v 18, enc6 v 12, CHR ''='', CHR ''=''])"
| "base64_EncodeToString [a, b] =
     (let v = of_char a * 2 ^ 16 + of_char b * 2 ^ 8
      in [enc6 v 18, enc6 v 12, enc6 v 6, CHR ''=''])"
| "base64_EncodeToString (a # b # c # rest) =
     (let v = of_char a * 2 ^ 16 + of_char b * 2 ^ 8 + of_char c
      in [enc6 v 18, enc6 v 12, enc6 v 6, enc6 v 0] @ base64_EncodeToString rest)"

fun index_of :: "'a \<Rightarrow> 'a list \<Rightarrow> nat option" where
  "index_of x [] = None"
| "index_of x (y # ys) = (if x = y then Some 0 else map_option Suc (index_of x ys))"

text \<open>The decoding table: the position of a character in the alphabet, if it has one.\<close>

definition decodeMap :: "char \<Rightarrow> nat option" where
  "decodeMap c = index_of c encodeStd"

definition quantum_val :: "nat \<Rightarrow> nat \<Rightarrow> nat \<Rightarrow> nat \<Rightarrow> int" where
  "quantum_val v0 v1 v2 v3 = int v0 * 2 ^ 18 + int v1 * 2 ^ 12 + int v2 * 2 ^ 6 + int v3"

text \<open>
  One quantum of four characters gives three bytes.  Padding is mandatory: the last
  quantum may end in \<open>=\<close> (two bytes) or \<open>==\<close> (one byte), nothing may follow the
  padding, and an input that stops inside a quantum is corrupt.  \<open>None\<close> is Go's
  \<open>CorruptInputError\<close>.
\<close>

fun decodeQuanta :: "string \<Rightarrow> string option" where
  "decodeQuanta [] = Some []"
| "decodeQuanta (c0 # c1 # c2 # c3 # rest) =
     (case (decodeMap c0, decodeMap c1) of
        (Some v0, Some v1) \<Rightarrow>
          (case decodeMap c2 of
             Some v2 \<Rightarrow>
               (case decodeMap c3 of
                  Some v3 \<Rightarrow>
                    (let v = quantum_val v0 v1 v2 v3
                     in map_option
                          (\<lambda>bs. [byte (v div 2 ^ 16), byte (v div 2 ^ 8), byte v] @ bs)
                          (decodeQuanta rest))
                | None \<Rightarrow>
                    (if c3 = CHR ''='' \<and> rest = []
                     then (let v = quantum_val v0 v1 v2 0
                           in Some [byte (v div 2 ^ 16), byte (v div 2 ^ 8)])
                     else None))
           | None \<Rightarrow>
               (if c2 = CHR ''='' \<and> c3 = CHR ''='' \<and> rest = []
                then (let v = quantum_val v0 v1 0 0 in Some [byte (v div 2 ^ 16)])
                else None))
      | _ \<Rightarrow> None)"
| "decodeQuanta _ = None"

text \<open>
  \<open>base64.StdEncoding.DecodeString\<close>: carriage returns and line feeds are ignored, the
  rest is decoded quantum by quantum.
\<close>

definition base64_DecodeString :: "string \<Rightarrow> string option" where
  "base64_DecodeString s =
     decodeQuanta (filter (\<lambda>c. c \<noteq> CHR 0x0A \<and> c \<noteq> CHR 0x0D) s)"

subsection \<open>Package crypto/md5 (RFC 1321)\<close>

text \<open>A \<open>uint32\<close> is an integer from 0 to \<open>2 ^ 32 - 1\<close>; sums are taken modulo \<open>2 ^ 32\<close>.\<close>

type_synonym u32 = int

definition md5_K :: "u32 list" where
  "md5_K =
  [0xd76aa478, 0xe8c7b756, 0x242070db, 0xc1bdceee,
   0xf57c0faf, 0x4787c62a, 0xa8304613, 0xfd469501,
   0x698098d8, 0x8b44f7af, 0xffff5bb1, 0x895cd7be,
   0x6b901122, 0xfd987193, 0xa679438e, 0x49b40821,
   0xf61e2562, 0xc040b340, 0x265e5a51, 0xe9b6c7aa,
   0xd62f105d, 0x02441453, 0xd8a1e681, 0xe7d3fbc8,
   0x21e1cde6, 0xc33707d6, 0xf4d50d87, 0x455a14ed,
   0xa9e3e905, 0xfcefa3f8, 0x676f02d9, 0x8d2a4c8a,
   0xfffa3942, 0x8771f681, 0x6d9d6122, 0xfde5380c,
   0xa4beea44, 0x4bdecfa9, 0xf6bb4b60, 0xbebfbc70,
   0x289b7ec6, 0xeaa127fa, 0xd4ef3085, 0x04881d05,
   0xd9d4d039, 0xe6db99e5, 0x1fa27cf8, 0xc4ac5665,
   0xf4292244, 0x432aff97, 0xab9423a7, 0xfc93a039,
   0x655b59c3, 0x8f0ccc92, 0xffeff47d, 0x85845dd1,
   0x6fa87e4f, 0xfe2ce6e0, 0xa3014314, 0x4e0811a1,
   0xf7537e82, 0xbd3af235, 0x2ad7d2bb, 0xeb86d391]"

definition md5_S :: "nat list" where
  "md5_S =
  [7, 12, 17, 22, 7, 12, 17, 22, 7, 12, 17, 22, 7, 12, 17, 22,
   5, 9, 14, 20, 5, 9, 14, 20, 5, 9, 14, 20, 5, 9, 14, 20,
   4, 11, 16, 23, 4, 11, 16, 23, 4, 11, 16, 23, 4, 11, 16, 23,
   6, 10, 15, 21, 6, 10, 15, 21, 6, 10, 15, 21, 6, 10, 15, 21]"

definition add32 :: "u32 \<Rightarrow> u32 \<Rightarrow> u32" where
  "add32 x y = (x + y) mod 2 ^ 32"

definition not32 :: "u32 \<Rightarrow> u32" where
  "not32 x = 2 ^ 32 - 1 - x"

definition rotl32 :: "u32 \<Rightarrow> nat \<Rightarrow> u32" where
  "rotl32 x n = (x * 2 ^ n) mod 2 ^ 32 + x div 2 ^ (32 - n)"

text \<open>Little-endian: four bytes to a word, a word to four bytes.\<close>

definition le32 :: "string \<Rightarrow> u32" where
  "le32 bs = foldr (\<lambda>c w. of_char c + 256 * w) bs 0"

definition u32_bytes :: "u32 \<Rightarrow> string" where
  "u32_bytes w = [byte w, byte (w div 2 ^ 8), byte (w div 2 ^ 16), byte (w div 2 ^ 24)]"

fun chunks :: "nat \<Rightarrow> 'a list \<Rightarrow> 'a list list" where
  "chunks n [] = []"
| "chunks n (x # xs) =
     (if n = 0 then [] else take n (x # xs) # chunks n (drop n (x # xs)))"

text \<open>
  Padding: the byte \<open>0x80\<close>, zero bytes up to 56 modulo 64, and the length of the
  message in bits as a 64-bit little-endian number.
\<close>

definition md5_pad :: "string \<Rightarrow> string" where
  "md5_pad m =
     (let n = length m;
          z = (55 + 64 - n mod 64) mod 64;
          bits = (8 * int n) mod 2 ^ 64
      in m @ [byte 0x80] @ replicate z (byte 0)
           @ map (\<lambda>i. byte (bits div 2 ^ (8 * i))) [0, 1, 2, 3, 4, 5, 6, 7])"

type_synonym md5_state = "u32 \<times> u32 \<times> u32 \<times> u32"

definition md5_round :: "u32 list \<Rightarrow> md5_state \<Rightarrow> nat \<Rightarrow> md5_state" where
  "md5_round M st i =
     (case st of (a, b, c, d) \<Rightarrow>
        let (f, g) =
              (if i < 16 then ((b AND c) OR (not32 b AND d), i)
               else if i < 32 then ((d AND b) OR (not32 d AND c), (5 * i + 1) mod 16)
               else if i < 48 then (b XOR c XOR d, (3 * i + 5) mod 16)
               else (c XOR (b OR not32 d), (7 * i) mod 16));
            f' = add32 (add32 (add32 f a) (md5_K ! i)) (M ! g)
        in (d, add32 b (rotl32 f' (md5_S ! i)), b, c))"

definition md5_block :: "md5_state \<Rightarrow> string \<Rightarrow> md5_state" where
  "md5_block st blk =
     (let M = map le32 (chunks 4 blk) in
      case st of (a0, b0, c0, d0) \<Rightarrow>
      case foldl (md5_round M) st [0..<64] of (a, b, c, d) \<Rightarrow>
        (add32 a0 a, add32 b0 b, add32 c0 c, add32 d0 d))"

definition md5_init :: md5_state where
  "md5_init = (0x67452301, 0xefcdab89, 0x98badcfe, 0x10325476)"

definition md5_Sum :: "string \<Rightarrow> string" where
  "md5_Sum m =
     (case foldl md5_block md5_init (chunks 64 (md5_pad m)) of (a, b, c, d) \<Rightarrow>
        u32_bytes a @ u32_bytes b @ u32_bytes c @ u32_bytes d)"

section \<open>The DIGEST-MD5 parameters and their parser\<close>

record digestMD5Parameters =
  username :: string
  realm :: string
  nonce :: string
  cnonce :: string
  nc :: string
  qop :: string
  servType :: string
  digestURI :: string
  response :: string
  charset :: string
  authID :: string

text \<open>
  Modelled from the spec: \<open>util.SplitKeyAndValue\<close>, a helper of this repository whose
  source is not part of the files at hand.  The specification of the parser says that a
  piece \<open>key=value\<close> is split on the first \<open>=\<close>, that the parser never fails and that what
  it does not recognise is dropped; so a piece without \<open>=\<close>, which is no such pair, gives
  the empty key, which no field has, and the empty value.
\<close>

definition SplitKeyAndValue :: "string \<Rightarrow> char \<Rightarrow> string \<times> string" where
  "SplitKeyAndValue str sep =
     (if sep \<in> set str
      then (takeWhile (\<lambda>c. c \<noteq> sep) str, drop 1 (dropWhile (\<lambda>c. c \<noteq> sep) str))
      else ([], []))"

definition setParameter :: "digestMD5Parameters \<Rightarrow> string \<Rightarrow> digestMD5Parameters" where
  "setParameter r p =
     (let (key, val) = SplitKeyAndValue p CHR ''='';
          val = TrimPrefix val [CHR 0x22];
          val = TrimSuffix val [CHR 0x22]
      in if key = ''username'' then r\<lparr>username := val\<rparr>
         else if key = ''realm'' then r\<lparr>realm := val\<rparr>
         else if key = ''nonce'' then r\<lparr>nonce := val\<rparr>
         else if key = ''cnonce'' then r\<lparr>cnonce := val\<rparr>
         else if key = ''nc'' then r\<lparr>nc := val\<rparr>
         else if key = ''qop'' then r\<lparr>qop := val\<rparr>
         else if key = ''serv-type'' then r\<lparr>servType := val\<rparr>
         else if key = ''digest-uri'' then r\<lparr>digestURI := val\<rparr>
         else if key = ''response'' then r\<lparr>response := val\<rparr>
         else if key = ''charset'' then r\<lparr>charset := val\<rparr>
         else if key = ''authzid'' then r\<lparr>authID := val\<rparr>
         else r)"

text \<open>The zero value of the struct: every field is the empty string.\<close>

definition zeroParameters :: digestMD5Parameters where
  "zeroParameters =
     \<lparr>username = [], realm = [], nonce = [], cnonce = [], nc = [], qop = [],
      servType = [], digestURI = [], response = [], charset = [], authID = []\<rparr>"

definition parseParameters :: "string \<Rightarrow> digestMD5Parameters" where
  "parseParameters str = foldl setParameter zeroParameters (Split str CHR '','')"

section \<open>The authenticator\<close>

datatype digestMD5State =
  startDigestMD5State
| challengedDigestMD5State
| authenticatedDigestMD5State

text \<open>
  The struct \<open>digestMD5Authenticator\<close>.  Its field \<open>strm\<close> never changes; what the
  code reads through it is part of the environment below.  The fields carry the name
  of the receiver, \<open>d\<close>, since \<open>username\<close> is a field of the parameters too.
\<close>

record digestMD5Authenticator =
  d_state :: digestMD5State
  d_username :: string
  d_authenticated :: bool

text \<open>
  Modelled from the spec: \<open>model.User\<close>, whose declaration is not part of the files at
  hand; it is the credential of the specification, of which the authenticator reads the
  user name and the password.
\<close>

record User =
  Username :: string
  Password :: string

text \<open>
  Modelled from the spec: \<open>xml.XElement\<close>, whose package is not part of the files at
  hand.  An incoming element has a name and a text, its payload; the elements that the
  authenticator builds have a name, a namespace and a text.
\<close>

record XElement =
  elem_name :: string
  elem_namespace :: string
  elem_text :: string

definition NewElementNamespace :: "string \<Rightarrow> string \<Rightarrow> XElement" where
  "NewElementNamespace n ns = \<lparr>elem_name = n, elem_namespace = ns, elem_text = []\<rparr>"

definition SetText :: "XElement \<Rightarrow> string \<Rightarrow> XElement" where
  "SetText e t = e\<lparr>elem_text := t\<rparr>"

text \<open>
  Modelled from the spec: the three SASL errors, variables of package \<open>server\<close> whose
  declarations are not part of the files at hand.  The specification lists them as
  three kinds of error that are told apart, besides the errors of the storage.  An
  error of the storage is a value made by package \<open>storage\<close>, which cannot name those
  variables (package \<open>server\<close> imports it), so it is a summand of its own:
  \<open>ErrMockedError\<close> of the storage, or any other error with its message.
\<close>

datatype storage_error = ErrMockedError | ErrStorage string

datatype error =
  errSASLMalformedRequest
| errSASLIncorrectEncoding
| errSASLNotAuthorized
| errFromStorage storage_error

text \<open>
  What the authenticator reads from outside: the domain of its stream, the storage
  behind \<open>storage.Instance().FetchUser\<close> (an error, no user, or a user), the bytes
  \<open>util.RandomBytes\<close> returns, and the constant \<open>saslNamespace\<close> of the package.
\<close>

record environment =
  Domain :: string
  FetchUser :: "string \<Rightarrow> storage_error + User option"
  RandomBytes :: "nat \<Rightarrow> string"
  saslNamespace :: string

text \<open>
  What a call does to the outside, in order: an element handed to \<open>strm.SendElement\<close>,
  or a call of \<open>FetchUser\<close> with its argument and its result.
\<close>

datatype effect =
  Sent XElement
| Fetched string "storage_error + User option"

text \<open>A call returns an error or \<open>nil\<close>, unless it panics.\<close>

datatype outcome = Panic | Return "error option"

type_synonym step = "outcome \<times> digestMD5Authenticator \<times> effect list"

definition newDigestMD5 :: digestMD5Authenticator where
  "newDigestMD5 = \<lparr>d_state = startDigestMD5State, d_username = [], d_authenticated = False\<rparr>"

definition Mechanism :: "digestMD5Authenticator \<Rightarrow> string" where
  "Mechanism d = ''DIGEST-MD5''"

definition Authenticated :: "digestMD5Authenticator \<Rightarrow> bool" where
  "Authenticated d = d_authenticated d"

definition UsesChannelBinding :: "digestMD5Authenticator \<Rightarrow> bool" where
  "UsesChannelBinding d = False"

definition Reset :: "digestMD5Authenticator \<Rightarrow> digestMD5Authenticator" where
  "Reset d = d\<lparr>d_state := startDigestMD5State, d_username := [], d_authenticated := False\<rparr>"

definition md5Hash :: "string \<Rightarrow> string" where
  "md5Hash b = md5_Sum b"

text \<open>\<open>bytes.Buffer\<close>: a buffer that starts with given contents and is appended to.\<close>

definition NewBuffer :: "string \<Rightarrow> string" where
  "NewBuffer buf = buf"

definition WriteString :: "string \<Rightarrow> string \<Rightarrow> string" where
  "WriteString buf s = buf @ s"

definition Bytes :: "string \<Rightarrow> string" where
  "Bytes buf = buf"

definition computeResponse :: "digestMD5Parameters \<Rightarrow> User \<Rightarrow> bool \<Rightarrow> string" where
  "computeResponse params user asClient =
     (let x = username params @ '':'' @ realm params @ '':'' @ Password user;
          y = md5Hash x;
          a1 = NewBuffer y;
          a1 = WriteString a1 ('':'' @ nonce params @ '':'' @ cnonce params);
          a1 = (if length (authID params) > 0
                then WriteString a1 ('':'' @ authID params) else a1);
          c = (if asClient then ''AUTHENTICATE'' else []);
          a2 = NewBuffer c;
          a2 = WriteString a2 ('':'' @ digestURI params);
          ha1 = hex_EncodeToString (md5Hash (Bytes a1));
          ha2 = hex_EncodeToString (md5Hash (Bytes a2));
          kd = ha1;
          kd = kd @ '':'' @ nonce params;
          kd = kd @ '':'' @ nc params;
          kd = kd @ '':'' @ cnonce params;
          kd = kd @ '':'' @ qop params;
          kd = kd @ '':'' @ ha2
      in hex_EncodeToString (md5Hash kd))"

definition quote :: string where
  "quote = [CHR 0x22]"

definition handleStart :: "environment \<Rightarrow> XElement \<Rightarrow> digestMD5Authenticator \<Rightarrow> step" where
  "handleStart env elem d =
     (let domain = Domain env;
          nonce = base64_EncodeToString (RandomBytes env 32);
          chnge = ''realm='' @ quote @ domain @ quote @ '',nonce='' @ quote @ nonce @ quote
                    @ '',qop='' @ quote @ ''auth'' @ quote
                    @ '',charset=utf-8,algorithm=md5-sess'';
          respElem = NewElementNamespace ''challenge'' (saslNamespace env);
          respElem = SetText respElem (base64_EncodeToString chnge)
      in (Return None, d\<lparr>d_state := challengedDigestMD5State\<rparr>, [Sent respElem]))"

text \<open>
  The condition of the digest-uri validation,
  \<open>!strings.HasPrefix(params.digestURI, "xmpp/") || params.digestURI[5:] != d.strm.Domain()\<close>:
  the right operand is evaluated only when the left one is false, and its slice
  expression may panic (\<open>None\<close>).
\<close>

definition digestURI_rejected :: "string \<Rightarrow> string \<Rightarrow> bool option" where
  "digestURI_rejected uri domain =
     (if \<not> HasPrefix uri ''xmpp/'' then Some True
      else (case slice_from uri 5 of
              None \<Rightarrow> None
            | Some rest \<Rightarrow> Some (rest \<noteq> domain)))"

definition handleChallenged :: "environment \<Rightarrow> XElement \<Rightarrow> digestMD5Authenticator \<Rightarrow> step" where
  "handleChallenged env elem d =
     (if length (elem_text elem) = 0 then (Return (Some errSASLMalformedRequest), d, [])
      else case base64_DecodeString (elem_text elem) of
        None \<Rightarrow> (Return (Some errSASLIncorrectEncoding), d, [])
      | Some b \<Rightarrow>
          let params = parseParameters b in
          if realm params \<noteq> Domain env then (Return (Some errSASLNotAuthorized), d, [])
          else if nc params \<noteq> ''00000001'' then (Return (Some errSASLNotAuthorized), d, [])
          else if qop params \<noteq> ''auth'' then (Return (Some errSASLNotAuthorized), d, [])
          else if length (servType params) > 0 \<and> servType params \<noteq> ''xmpp''
            then (Return (Some errSASLNotAuthorized), d, [])
          else case digestURI_rejected (digestURI params) (Domain env) of
            None \<Rightarrow> (Panic, d, [])
          | Some True \<Rightarrow> (Return (Some errSASLNotAuthorized), d, [])
          | Some False \<Rightarrow>
              let res = FetchUser env (username params);
                  fx = [Fetched (username params) res]
              in case res of
                Inl err \<Rightarrow> (Return (Some (errFromStorage err)), d, fx)
              | Inr None \<Rightarrow> (Return (Some errSASLNotAuthorized), d, fx)
              | Inr (Some user) \<Rightarrow>
                  let clientResp = computeResponse params user True in
                  if clientResp \<noteq> response params
                  then (Return (Some errSASLNotAuthorized), d, fx)
                  else
                    let serverResp = computeResponse params user False;
                        respAuth = ''rspauth='' @ serverResp;
                        respElem = NewElementNamespace ''challenge'' (saslNamespace env);
                        respElem = SetText respElem (base64_EncodeToString respAuth)
                    in (Return None,
                        d\<lparr>d_username := Username user,
                          d_state := authenticatedDigestMD5State\<rparr>,
                        fx @ [Sent respElem]))"

definition handleAuthenticated :: "environment \<Rightarrow> XElement \<Rightarrow> digestMD5Authenticator \<Rightarrow> step" where
  "handleAuthenticated env elem d =
     (Return None, d\<lparr>d_authenticated := True\<rparr>,
      [Sent (NewElementNamespace ''success'' (saslNamespace env))])"

definition ProcessElement :: "environment \<Rightarrow> XElement \<Rightarrow> digestMD5Authenticator \<Rightarrow> step" where
  "ProcessElement env elem d =
     (if Authenticated d then (Return None, d, [])
      else if elem_name elem = ''auth'' then
        (case d_state d of
           startDigestMD5State \<Rightarrow> handleStart env elem d
         | _ \<Rightarrow> (Return (Some errSASLNotAuthorized), d, []))
      else if elem_name elem = ''response'' then
        (case d_state d of
           challengedDigestMD5State \<Rightarrow> handleChallenged env elem d
         | authenticatedDigestMD5State \<Rightarrow> handleAuthenticated env elem d
         | _ \<Rightarrow> (Return (Some errSASLNotAuthorized), d, []))
      else (Return (Some errSASLNotAuthorized), d, []))"

text \<open>The parts of the result of a call.\<close>

definition returned :: "step \<Rightarrow> outcome" where
  "returned r = fst r"

definition session_after :: "step \<Rightarrow> digestMD5Authenticator" where
  "session_after r = fst (snd r)"

definition effects_of :: "step \<Rightarrow> effect list" where
  "effects_of r = snd (snd r)"

text \<open>
  The sessions a connection can be in, with the effects so far: a new session, and from
  there any element processed, in any environment, and any reset.
\<close>

inductive reachable :: "digestMD5Authenticator \<Rightarrow> effect list \<Rightarrow> bool" where
  reachable_new: "reachable newDigestMD5 []"
| reachable_process:
    "reachable d tr \<Longrightarrow> ProcessElement env elem d = (r, d', fx) \<Longrightarrow> reachable d' (tr @ fx)"
| reachable_reset: "reachable d tr \<Longrightarrow> reachable (Reset d) tr"

section \<open>The specification's formulations\<close>

text \<open>
  The definitions of this section follow the words of the specification; the theorems
  below compare them with the functions above.
\<close>

subsection \<open>The parser\<close>

text \<open>One leading and one trailing double quote are stripped from a value.\<close>

definition spec_strip_quotes :: "string \<Rightarrow> string" where
  "spec_strip_quotes v =
     (let v1 = (if v \<noteq> [] \<and> hd v = CHR 0x22 then tl v else v)
      in if v1 \<noteq> [] \<and> last v1 = CHR 0x22 then butlast v1 else v1)"

definition spec_key :: "string \<Rightarrow> string" where
  "spec_key p = fst (SplitKeyAndValue p CHR ''='')"

definition spec_value :: "string \<Rightarrow> string" where
  "spec_value p = spec_strip_quotes (snd (SplitKeyAndValue p CHR ''=''))"

text \<open>
  The field of a key after parsing: the value of the last piece with that key, and the
  empty string when no piece has it.
\<close>

definition spec_field :: "string \<Rightarrow> string \<Rightarrow> string" where
  "spec_field key str =
     (case filter (\<lambda>p. spec_key p = key) (Split str CHR '','') of
        [] \<Rightarrow> []
      | q # qs \<Rightarrow> spec_value (last (q # qs)))"

fun join :: "string list \<Rightarrow> char \<Rightarrow> string" where
  "join [] sep = []"
| "join [p] sep = p"
| "join (p # q # ps) sep = p @ sep # join (q # ps) sep"

subsection \<open>The digest\<close>

definition spec_X :: "string \<Rightarrow> string \<Rightarrow> string \<Rightarrow> string" where
  "spec_X uname rlm password = uname @ '':'' @ rlm @ '':'' @ password"

definition spec_Y :: "string \<Rightarrow> string \<Rightarrow> string \<Rightarrow> string" where
  "spec_Y uname rlm password = md5_Sum (spec_X uname rlm password)"

definition spec_A1 :: "string \<Rightarrow> string \<Rightarrow> string \<Rightarrow> string \<Rightarrow> string" where
  "spec_A1 Y nnce cnnce authid =
     (if authid \<noteq> [] then Y @ '':'' @ nnce @ '':'' @ cnnce @ '':'' @ authid
      else Y @ '':'' @ nnce @ '':'' @ cnnce)"

definition spec_A2 :: "bool \<Rightarrow> string \<Rightarrow> string" where
  "spec_A2 asClient uri = (if asClient then ''AUTHENTICATE'' else []) @ '':'' @ uri"

definition spec_KD :: "string \<Rightarrow> string \<Rightarrow> string \<Rightarrow> string \<Rightarrow> string \<Rightarrow> string \<Rightarrow> string" where
  "spec_KD HA1 nnce ncount cnnce qp HA2 =
     HA1 @ '':'' @ nnce @ '':'' @ ncount @ '':'' @ cnnce @ '':'' @ qp @ '':'' @ HA2"

definition spec_response :: "digestMD5Parameters \<Rightarrow> string \<Rightarrow> bool \<Rightarrow> string" where
  "spec_response p password asClient =
     (let Y = spec_Y (username p) (realm p) password;
          HA1 = hex_EncodeToString (md5_Sum (spec_A1 Y (nonce p) (cnonce p) (authID p)));
          HA2 = hex_EncodeToString (md5_Sum (spec_A2 asClient (digestURI p)))
      in hex_EncodeToString (md5_Sum (spec_KD HA1 (nonce p) (nc p) (cnonce p) (qop p) HA2)))"

subsection \<open>The validation of a response\<close>

text \<open>
  The seven checks, in the order of the specification: realm, nonce count, quality of
  protection, service type, digest URI, the lookup of the user, the client's digest.
\<close>

definition checks :: "environment \<Rightarrow> digestMD5Parameters \<Rightarrow> bool list" where
  "checks env p =
     [realm p = Domain env,
      nc p = ''00000001'',
      qop p = ''auth'',
      servType p = [] \<or> servType p = ''xmpp'',
      digestURI p = ''xmpp/'' @ Domain env,
      (case FetchUser env (username p) of Inr (Some u) \<Rightarrow> True | _ \<Rightarrow> False),
      (case FetchUser env (username p) of
         Inr (Some u) \<Rightarrow> computeResponse p u True = response p
       | _ \<Rightarrow> False)]"

text \<open>The position of the first check that fails, counted from 0.\<close>

fun first_failure :: "bool list \<Rightarrow> nat option" where
  "first_failure [] = None"
| "first_failure (b # bs) = (if b then map_option Suc (first_failure bs) else Some 0)"

text \<open>
  The error of a failed validation: the error of the storage when the lookup (position
  5) failed with one, the uniform error otherwise.  The lookup is an effect from
  position 5 on.
\<close>

definition failure_error :: "nat \<Rightarrow> storage_error + User option \<Rightarrow> error" where
  "failure_error k res =
     (case res of
        Inl e \<Rightarrow> if k = 5 then errFromStorage e else errSASLNotAuthorized
      | Inr u \<Rightarrow> errSASLNotAuthorized)"

definition failure_effects :: "nat \<Rightarrow> string \<Rightarrow> storage_error + User option \<Rightarrow> effect list" where
  "failure_effects k q res = (if k < 5 then [] else [Fetched q res])"

text \<open>
  A response that passes: the server's digest goes out as \<open>rspauth\<close>, the session takes
  the name of the user found and waits for the acknowledgement.
\<close>

definition accepted ::
  "environment \<Rightarrow> digestMD5Parameters \<Rightarrow> User \<Rightarrow> digestMD5Authenticator \<Rightarrow> step" where
  "accepted env p u d =
     (Return None,
      d\<lparr>d_username := Username u, d_state := authenticatedDigestMD5State\<rparr>,
      [Fetched (username p) (Inr (Some u)),
       Sent \<lparr>elem_name = ''challenge'', elem_namespace = saslNamespace env,
             elem_text = base64_EncodeToString (''rspauth='' @ computeResponse p u False)\<rparr>])"

fun state_rank :: "digestMD5State \<Rightarrow> nat" where
  "state_rank startDigestMD5State = 0"
| "state_rank challengedDigestMD5State = 1"
| "state_rank authenticatedDigestMD5State = 2"

section \<open>A sample deployment\<close>

text \<open>
  The scenario of the specification: the domain \<open>example.com\<close>, the user \<open>alice\<close> with
  the password \<open>secret\<close>, the nonce \<open>N\<close> and the client nonce \<open>C\<close>.
\<close>

definition sasl_ns :: string where
  "sasl_ns = ''urn:ietf:params:xml:ns:xmpp-sasl''"

definition alice :: User where
  "alice = \<lparr>Username = ''alice'', Password = ''secret''\<rparr>"

definition example_store :: "string \<Rightarrow> storage_error + User option" where
  "example_store q = (if q = ''alice'' then Inr (Some alice) else Inr None)"

definition zero_bytes :: "nat \<Rightarrow> string" where
  "zero_bytes n = replicate n (CHR 0x00)"

definition example_env :: environment where
  "example_env =
     \<lparr>Domain = ''example.com'', FetchUser = example_store, RandomBytes = zero_bytes,
      saslNamespace = sasl_ns\<rparr>"

definition auth_elem :: XElement where
  "auth_elem = \<lparr>elem_name = ''auth'', elem_namespace = sasl_ns, elem_text = []\<rparr>"

text \<open>A \<open>response\<close> element without text: the acknowledgement that ends the handshake.\<close>

definition ack_elem :: XElement where
  "ack_elem = \<lparr>elem_name = ''response'', elem_namespace = sasl_ns, elem_text = []\<rparr>"

definition example_payload :: string where
  "example_payload = ''username=\"alice\",realm=\"example.com\",nonce=\"N\",cnonce=\"C\",nc=00000001,qop=auth,digest-uri=\"xmpp/example.com\",response=668631fe20bb1c73c30749ef08630297,charset=utf-8''"

text \<open>The element whose text is the payload in base64.\<close>

definition example_response :: XElement where
  "example_response =
     \<lparr>elem_name = ''response'', elem_namespace = sasl_ns,
      elem_text = ''dXNlcm5hbWU9ImFsaWNlIixyZWFsbT0iZXhhbXBsZS5jb20iLG5vbmNlPSJOIixjbm9uY2U9IkMiLG5jPTAwMDAwMDAxLHFvcD1hdXRoLGRpZ2VzdC11cmk9InhtcHAvZXhhbXBsZS5jb20iLHJlc3BvbnNlPTY2ODYzMWZlMjBiYjFjNzNjMzA3NDllZjA4NjMwMjk3LGNoYXJzZXQ9dXRmLTg=''\<rparr>"

definition example_params :: digestMD5Parameters where
  "example_params =
     \<lparr>username = ''alice'', realm = ''example.com'', nonce = ''N'', cnonce = ''C'',
      nc = ''00000001'', qop = ''auth'', servType = [], digestURI = ''xmpp/example.com'',
      response = ''668631fe20bb1c73c30749ef08630297'', charset = ''utf-8'', authID = []\<rparr>"

text \<open>The same payload with the nonce count \<open>00000002\<close>.\<close>

definition replay_response :: XElement where
  "replay_response =
     \<lparr>elem_name = ''response'', elem_namespace = sasl_ns,
      elem_text = ''dXNlcm5hbWU9ImFsaWNlIixyZWFsbT0iZXhhbXBsZS5jb20iLG5vbmNlPSJOIixjbm9uY2U9IkMiLG5jPTAwMDAwMDAyLHFvcD1hdXRoLGRpZ2VzdC11cmk9InhtcHAvZXhhbXBsZS5jb20iLHJlc3BvbnNlPTY2ODYzMWZlMjBiYjFjNzNjMzA3NDllZjA4NjMwMjk3LGNoYXJzZXQ9dXRmLTg=''\<rparr>"

definition replay_params :: digestMD5Parameters where
  "replay_params = example_params\<lparr>nc := ''00000002''\<rparr>"

definition garbled_response :: XElement where
  "garbled_response =
     \<lparr>elem_name = ''response'', elem_namespace = sasl_ns, elem_text = ''not base64!''\<rparr>"

text \<open>A payload with a repeated key, an unknown key and pieces that are no pairs.\<close>

definition messy_payload :: string where
  "messy_payload = ''nc=1,junk,=x,unknown=7,nc=\"00000001\",realm''"

text \<open>A storage that fails, as the mock does after \<open>ActivateMockedError\<close>.\<close>

definition failing_store :: "string \<Rightarrow> storage_error + User option" where
  "failing_store q = Inl ErrMockedError"

definition failing_env :: environment where
  "failing_env = example_env\<lparr>FetchUser := failing_store\<rparr>"

text \<open>
  A storage that holds a user whose name is the empty string, and a payload without
  \<open>username\<close> whose digest is the one of that user.
\<close>

definition nameless :: User where
  "nameless = \<lparr>Username = [], Password = ''secret''\<rparr>"

definition nameless_store :: "string \<Rightarrow> storage_error + User option" where
  "nameless_store q = (if q = [] then Inr (Some nameless) else Inr None)"

definition nameless_env :: environment where
  "nameless_env = example_env\<lparr>FetchUser := nameless_store\<rparr>"

definition nameless_response :: XElement where
  "nameless_response =
     \<lparr>elem_name = ''response'', elem_namespace = sasl_ns,
      elem_text = ''cmVhbG09ImV4YW1wbGUuY29tIixub25jZT0iTiIsY25vbmNlPSJDIixuYz0wMDAwMDAwMSxxb3A9YXV0aCxkaWdlc3QtdXJpPSJ4bXBwL2V4YW1wbGUuY29tIixyZXNwb25zZT0xYTE3ZGY5NDc1YmU4YjBjNWJmMDcxNDgzODM2NGEwNw==''\<rparr>"

definition nameless_params :: digestMD5Parameters where
  "nameless_params =
     \<lparr>username = [], realm = ''example.com'', nonce = ''N'', cnonce = ''C'',
      nc = ''00000001'', qop = ''auth'', servType = [], digestURI = ''xmpp/example.com'',
      response = ''1a17df9475be8b0c5bf0714838364a07'', charset = [], authID = []\<rparr>"

text \<open>Sessions on the way through the handshake.\<close>

definition challenged :: digestMD5Authenticator where
  "challenged =
     \<lparr>d_state = challengedDigestMD5State, d_username = [], d_authenticated = False\<rparr>"

definition example_pending :: digestMD5Authenticator where
  "example_pending =
     \<lparr>d_state = authenticatedDigestMD5State, d_username = ''alice'', d_authenticated = False\<rparr>"

definition example_done :: digestMD5Authenticator where
  "example_done =
     \<lparr>d_state = authenticatedDigestMD5State, d_username = ''alice'', d_authenticated = True\<rparr>"

definition nameless_pending :: digestMD5Authenticator where
  "nameless_pending =
     \<lparr>d_state = authenticatedDigestMD5State, d_username = [], d_authenticated = False\<rparr>"

definition nameless_done :: digestMD5Authenticator where
  "nameless_done =
     \<lparr>d_state = authenticatedDigestMD5State, d_username = [], d_authenticated = True\<rparr>"

definition example_challenge :: XElement where
  "example_challenge =
     \<lparr>elem_name = ''challenge'', elem_namespace = sasl_ns,
      elem_text = ''cmVhbG09ImV4YW1wbGUuY29tIixub25jZT0iQUFBQUFBQUFBQUFBQUFBQUFBQUFBQUFBQUFBQUFBQUFBQUFBQUFBQUFBQT0iLHFvcD0iYXV0aCIsY2hhcnNldD11dGYtOCxhbGdvcml0aG09bWQ1LXNlc3M=''\<rparr>"

definition example_rspauth_elem :: XElement where
  "example_rspauth_elem =
     \<lparr>elem_name = ''challenge'', elem_namespace = sasl_ns,
      elem_text = ''cnNwYXV0aD05YWIyNjNlN2FlN2I0MTljNmRmNzFmMTFhNzY0YWQyMw==''\<rparr>"

definition success_elem :: XElement where
  "success_elem = \<lparr>elem_name = ''success'', elem_namespace = sasl_ns, elem_text = []\<rparr>"

definition example_trace :: "effect list" where
  "example_trace =
     [Sent example_challenge, Fetched ''alice'' (Inr (Some alice)), Sent example_rspauth_elem,
      Sent success_elem]"

section \<open>The parser meets its specification\<close>

lemma Split_not_Nil: "Split s sep \<noteq> []"
  by (induction s) (auto split: list.splits)

lemma join_Split: "join (Split s sep) sep = s"
proof (induction s)
  case Nil
  show ?case by simp
next
  case (Cons c cs)
  obtain p ps where sp: "Split cs sep = p # ps"
    using Split_not_Nil [of cs sep] by (cases "Split cs sep") auto
  show ?case
  proof (cases "c = sep")
    case True
    with Cons sp show ?thesis by simp
  next
    case False
    with Cons sp show ?thesis by (cases ps) auto
  qed
qed

lemma Split_no_sep: "p \<in> set (Split s sep) \<Longrightarrow> sep \<notin> set p"
  by (induction s arbitrary: p) (auto split: if_splits list.splits)

lemma SplitKeyAndValue_eq:
  assumes a: "sep \<in> set p" and b: "SplitKeyAndValue p sep = (k, v)"
  shows "p = k @ sep # v \<and> sep \<notin> set k"
proof -
  from a b have k: "k = takeWhile (\<lambda>c. c \<noteq> sep) p"
    and v: "v = drop 1 (dropWhile (\<lambda>c. c \<noteq> sep) p)"
    by (simp_all add: SplitKeyAndValue_def)
  from a have ne: "dropWhile (\<lambda>c. c \<noteq> sep) p \<noteq> []" by simp
  then have hd: "hd (dropWhile (\<lambda>c. c \<noteq> sep) p) = sep"
    using hd_dropWhile [of "\<lambda>c. c \<noteq> sep" p] by simp
  from ne hd have "dropWhile (\<lambda>c. c \<noteq> sep) p = sep # v"
    unfolding v by (cases "dropWhile (\<lambda>c. c \<noteq> sep) p") auto
  then have "p = k @ sep # v"
    unfolding k using takeWhile_dropWhile_id [of "\<lambda>c. c \<noteq> sep" p] by simp
  moreover have "sep \<notin> set k"
    unfolding k by (auto dest: set_takeWhileD)
  ultimately show ?thesis by simp
qed

lemma TrimPrefix_single: "TrimPrefix w [c] = (if w \<noteq> [] \<and> hd w = c then tl w else w)"
  by (cases w) (auto simp: TrimPrefix_def HasPrefix_def)

lemma TrimSuffix_single: "TrimSuffix w [c] = (if w \<noteq> [] \<and> last w = c then butlast w else w)"
proof (cases w rule: rev_cases)
  case Nil
  then show ?thesis by (simp add: TrimSuffix_def HasSuffix_def)
next
  case (snoc ys y)
  then show ?thesis by (simp add: TrimSuffix_def HasSuffix_def)
qed

lemma trim_quotes: "TrimSuffix (TrimPrefix v [CHR 0x22]) [CHR 0x22] = spec_strip_quotes v"
  unfolding TrimPrefix_single TrimSuffix_single spec_strip_quotes_def Let_def ..

text \<open>
  What one piece does to one field, and what the loop over the pieces does to it: the
  last piece with the key of the field decides.
\<close>

lemma setParameter_fields:
  "username (setParameter r p) = (if spec_key p = ''username'' then spec_value p else username r)"
  "realm (setParameter r p) = (if spec_key p = ''realm'' then spec_value p else realm r)"
  "nonce (setParameter r p) = (if spec_key p = ''nonce'' then spec_value p else nonce r)"
  "cnonce (setParameter r p) = (if spec_key p = ''cnonce'' then spec_value p else cnonce r)"
  "nc (setParameter r p) = (if spec_key p = ''nc'' then spec_value p else nc r)"
  "qop (setParameter r p) = (if spec_key p = ''qop'' then spec_value p else qop r)"
  "servType (setParameter r p) = (if spec_key p = ''serv-type'' then spec_value p else servType r)"
  "digestURI (setParameter r p) = (if spec_key p = ''digest-uri'' then spec_value p else digestURI r)"
  "response (setParameter r p) = (if spec_key p = ''response'' then spec_value p else response r)"
  "charset (setParameter r p) = (if spec_key p = ''charset'' then spec_value p else charset r)"
  "authID (setParameter r p) = (if spec_key p = ''authzid'' then spec_value p else authID r)"
  by (simp_all add: setParameter_def spec_key_def spec_value_def trim_quotes Let_def
      split: prod.splits)

lemma fold_field:
  assumes g: "\<And>r p. g (setParameter r p) = (if spec_key p = k then spec_value p else g r)"
  shows "g (foldl setParameter r ps) =
           (case filter (\<lambda>p. spec_key p = k) ps of
              [] \<Rightarrow> g r
            | q # qs \<Rightarrow> spec_value (last (q # qs)))"
proof (induction ps rule: rev_induct)
  case Nil
  show ?case by simp
next
  case (snoc p ps)
  show ?case
  proof (cases "spec_key p = k")
    case True
    have "(case xs @ [p] of [] \<Rightarrow> a | q # qs \<Rightarrow> spec_value (last (q # qs))) = spec_value p"
      for xs a by (cases xs) simp_all
    with True show ?thesis by (simp add: g)
  next
    case False
    then show ?thesis using snoc by (simp add: g)
  qed
qed

lemma parse_field:
  assumes g: "\<And>r p. g (setParameter r p) = (if spec_key p = k then spec_value p else g r)"
    and z: "g zeroParameters = []"
  shows "g (parseParameters str) = spec_field k str"
  unfolding parseParameters_def spec_field_def fold_field [of g k, OF g] z ..

lemma example_decode:
  "base64_DecodeString (elem_text example_response) = Some example_payload"
  by code_simp

lemma example_parse: "parseParameters example_payload = example_params"
  by code_simp

lemma messy_parse: "parseParameters messy_payload = zeroParameters\<lparr>nc := ''00000001''\<rparr>"
  by code_simp

text \<open>
  Claim C7.  The parser returns a parameter set for every input string; it has no way
  to fail.  The input is split on the commas (joining the pieces with commas gives the
  input back, and no piece holds a comma), a piece is split on its first \<open>=\<close>, one
  leading and one trailing double quote are stripped from the value, and a field is
  the value of the last piece that carries the key of the field, so a later duplicate
  overwrites an earlier one.  A piece with an unknown key or without \<open>=\<close> changes no
  field, and a field whose key never occurs is the empty string.
\<close>

theorem parseParameters_spec:
  "parseParameters str =
     \<lparr>username = spec_field ''username'' str,
      realm = spec_field ''realm'' str,
      nonce = spec_field ''nonce'' str,
      cnonce = spec_field ''cnonce'' str,
      nc = spec_field ''nc'' str,
      qop = spec_field ''qop'' str,
      servType = spec_field ''serv-type'' str,
      digestURI = spec_field ''digest-uri'' str,
      response = spec_field ''response'' str,
      charset = spec_field ''charset'' str,
      authID = spec_field ''authzid'' str\<rparr>
   \<and> join (Split str CHR '','') CHR '','' = str
   \<and> (\<forall>p \<in> set (Split str CHR '',''). CHR '','' \<notin> set p)
   \<and> (\<forall>p. CHR ''='' \<in> set p \<longrightarrow>
          p = spec_key p @ ''='' @ snd (SplitKeyAndValue p CHR ''='')
          \<and> CHR ''='' \<notin> set (spec_key p))
   \<and> (\<forall>p. CHR ''='' \<notin> set p \<longrightarrow> spec_key p = [])"
proof -
  have rec: "parseParameters str = \<lparr>username = spec_field ''username'' str,
      realm = spec_field ''realm'' str, nonce = spec_field ''nonce'' str,
      cnonce = spec_field ''cnonce'' str, nc = spec_field ''nc'' str,
      qop = spec_field ''qop'' str, servType = spec_field ''serv-type'' str,
      digestURI = spec_field ''digest-uri'' str, response = spec_field ''response'' str,
      charset = spec_field ''charset'' str, authID = spec_field ''authzid'' str\<rparr>"
    by (rule digestMD5Parameters.equality)
       (simp_all add: parse_field [OF setParameter_fields(1)]
          parse_field [OF setParameter_fields(2)] parse_field [OF setParameter_fields(3)]
          parse_field [OF setParameter_fields(4)] parse_field [OF setParameter_fields(5)]
          parse_field [OF setParameter_fields(6)] parse_field [OF setParameter_fields(7)]
          parse_field [OF setParameter_fields(8)] parse_field [OF setParameter_fields(9)]
          parse_field [OF setParameter_fields(10)] parse_field [OF setParameter_fields(11)]
          zeroParameters_def)
  have kv: "p = spec_key p @ ''='' @ snd (SplitKeyAndValue p CHR ''='')
            \<and> CHR ''='' \<notin> set (spec_key p)"
    if "CHR ''='' \<in> set p" for p
    using SplitKeyAndValue_eq [OF that, of "fst (SplitKeyAndValue p CHR ''='')"
        "snd (SplitKeyAndValue p CHR ''='')"]
    by (simp add: spec_key_def)
  have nokv: "spec_key p = []" if "CHR ''='' \<notin> set p" for p
    using that by (simp add: spec_key_def SplitKeyAndValue_def)
  show ?thesis
    using rec join_Split [of str "CHR '',''"] Split_no_sep [of _ str "CHR '',''"] kv nokv
    by blast
qed

theorem parseParameters_spec_witness:
  "spec_field ''nc'' messy_payload = ''00000001''
   \<and> spec_field ''realm'' messy_payload = []
   \<and> spec_field ''username'' example_payload = ''alice''
   \<and> spec_field ''digest-uri'' example_payload = ''xmpp/example.com''
   \<and> spec_field ''authzid'' example_payload = []"
proof -
  from parseParameters_spec [of messy_payload]
  have m: "zeroParameters\<lparr>nc := ''00000001''\<rparr> =
      \<lparr>username = spec_field ''username'' messy_payload,
       realm = spec_field ''realm'' messy_payload,
       nonce = spec_field ''nonce'' messy_payload,
       cnonce = spec_field ''cnonce'' messy_payload,
       nc = spec_field ''nc'' messy_payload,
       qop = spec_field ''qop'' messy_payload,
       servType = spec_field ''serv-type'' messy_payload,
       digestURI = spec_field ''digest-uri'' messy_payload,
       response = spec_field ''response'' messy_payload,
       charset = spec_field ''charset'' messy_payload,
       authID = spec_field ''authzid'' messy_payload\<rparr>"
    unfolding messy_parse by blast
  from parseParameters_spec [of example_payload]
  have e: "example_params =
      \<lparr>username = spec_field ''username'' example_payload,
       realm = spec_field ''realm'' example_payload,
       nonce = spec_field ''nonce'' example_payload,
       cnonce = spec_field ''cnonce'' example_payload,
       nc = spec_field ''nc'' example_payload,
       qop = spec_field ''qop'' example_payload,
       servType = spec_field ''serv-type'' example_payload,
       digestURI = spec_field ''digest-uri'' example_payload,
       response = spec_field ''response'' example_payload,
       charset = spec_field ''charset'' example_payload,
       authID = spec_field ''authzid'' example_payload\<rparr>"
    unfolding example_parse by blast
  have "nc (zeroParameters\<lparr>nc := ''00000001''\<rparr>) = spec_field ''nc'' messy_payload"
    using arg_cong [OF m, of nc] by simp
  moreover
  have "realm (zeroParameters\<lparr>nc := ''00000001''\<rparr>) = spec_field ''realm'' messy_payload"
    using arg_cong [OF m, of realm] by simp
  moreover have "username example_params = spec_field ''username'' example_payload"
    using arg_cong [OF e, of username] by simp
  moreover have "digestURI example_params = spec_field ''digest-uri'' example_payload"
    using arg_cong [OF e, of digestURI] by simp
  moreover have "authID example_params = spec_field ''authzid'' example_payload"
    using arg_cong [OF e, of authID] by simp
  ultimately show ?thesis
    by (simp add: zeroParameters_def example_params_def)
qed

section \<open>The digest\<close>

lemma length_md5_Sum: "length (md5_Sum m) = 16"
  by (simp add: md5_Sum_def u32_bytes_def split: prod.splits)

lemma length_hex_EncodeToString: "length (hex_EncodeToString bs) = 2 * length bs"
  by (induction bs) (simp_all add: hex_EncodeToString_def hex_byte_def Let_def)

text \<open>
  The two roles never hash the same \<open>A2\<close>, whatever the digest URI is; whether the two
  responses differ is then a matter of collisions of MD5.
\<close>

lemma spec_A2_roles_differ: "spec_A2 True uri \<noteq> spec_A2 False uri"
  by (simp add: spec_A2_def)

lemma example_client_digest:
  "computeResponse example_params alice True = ''668631fe20bb1c73c30749ef08630297''"
  by code_simp

lemma example_server_digest:
  "computeResponse example_params alice False = ''9ab263e7ae7b419c6df71f11a764ad23''"
  by code_simp

lemma example_fields:
  "username example_params = ''alice''" "realm example_params = ''example.com''"
  "nc example_params = ''00000001''" "qop example_params = ''auth''"
  "servType example_params = []" "digestURI example_params = ''xmpp/example.com''"
  "response example_params = ''668631fe20bb1c73c30749ef08630297''"
  by (simp_all add: example_params_def)

lemma alice_fields: "Username alice = ''alice''" "Password alice = ''secret''"
  by (simp_all add: alice_def)

text \<open>
  Claim C1.  For every parameter set and every credential, \<open>computeResponse\<close> returns
  the hexadecimal form of \<open>MD5(KD)\<close>, where \<open>X\<close> is user name, realm and password
  joined by colons, \<open>Y = MD5(X)\<close> is sixteen raw bytes, \<open>A1\<close> is \<open>Y\<close>, nonce and client
  nonce joined by colons, with a colon and the authorization id appended exactly when
  that id is not empty, \<open>A2\<close> is \<open>AUTHENTICATE\<close> for the client and nothing for the
  server, then a colon and the digest URI, \<open>HA1\<close> and \<open>HA2\<close> are the hexadecimal forms of
  the MD5 of \<open>A1\<close> and \<open>A2\<close>, and \<open>KD\<close> joins \<open>HA1\<close>, nonce, nonce count, client nonce,
  quality of protection and \<open>HA2\<close> by colons.  \<open>A1\<close> starts with the sixteen raw bytes
  of \<open>Y\<close>, which differ from their hexadecimal form.
\<close>

theorem computeResponse_spec:
  "computeResponse params user asClient = spec_response params (Password user) asClient
   \<and> length (spec_Y (username params) (realm params) (Password user)) = 16
   \<and> take 16 (spec_A1 (spec_Y (username params) (realm params) (Password user))
                  (nonce params) (cnonce params) (authID params))
       = md5_Sum (username params @ '':'' @ realm params @ '':'' @ Password user)
   \<and> hex_EncodeToString (spec_Y (username params) (realm params) (Password user))
       \<noteq> spec_Y (username params) (realm params) (Password user)"
proof -
  have a: "computeResponse params user asClient = spec_response params (Password user) asClient"
    by (simp add: computeResponse_def spec_response_def spec_Y_def spec_X_def spec_A1_def
        spec_A2_def spec_KD_def md5Hash_def NewBuffer_def WriteString_def Bytes_def Let_def)
  have b: "length (spec_Y (username params) (realm params) (Password user)) = 16"
    by (simp add: spec_Y_def length_md5_Sum)
  have c: "take 16 (spec_A1 (spec_Y (username params) (realm params) (Password user))
                  (nonce params) (cnonce params) (authID params))
       = md5_Sum (username params @ '':'' @ realm params @ '':'' @ Password user)"
    using b by (simp add: spec_A1_def spec_Y_def spec_X_def)
  have "length (hex_EncodeToString (spec_Y (username params) (realm params) (Password user)))
          = 32"
    by (simp add: length_hex_EncodeToString b)
  with b have d: "hex_EncodeToString (spec_Y (username params) (realm params) (Password user))
       \<noteq> spec_Y (username params) (realm params) (Password user)"
    by auto
  from a b c d show ?thesis by simp
qed

theorem computeResponse_spec_witness:
  "spec_response example_params ''secret'' True = ''668631fe20bb1c73c30749ef08630297''
   \<and> spec_response example_params ''secret'' False = ''9ab263e7ae7b419c6df71f11a764ad23''
   \<and> length (spec_Y ''alice'' ''example.com'' ''secret'') = 16"
  using computeResponse_spec [of example_params alice True]
    computeResponse_spec [of example_params alice False]
    example_client_digest example_server_digest
  by (simp add: example_fields alice_fields)

section \<open>The digest-URI check\<close>

lemma HasPrefix_append: "HasPrefix s pre \<longleftrightarrow> (\<exists>rest. s = pre @ rest)"
  by (auto simp: HasPrefix_def) (metis append_take_drop_id)

lemma HasPrefix_xmpp_length: "HasPrefix s ''xmpp/'' \<Longrightarrow> 5 \<le> length s"
  by (simp add: HasPrefix_def)

lemma digestURI_rejected_eq: "digestURI_rejected uri domain = Some (uri \<noteq> ''xmpp/'' @ domain)"
proof (cases "HasPrefix uri ''xmpp/''")
  case True
  then obtain rest where "uri = ''xmpp/'' @ rest" by (auto simp: HasPrefix_append)
  then show ?thesis by (simp add: digestURI_rejected_def slice_from_def HasPrefix_def)
next
  case False
  then have "uri \<noteq> ''xmpp/'' @ domain" by (auto simp: HasPrefix_append)
  with False show ?thesis by (simp add: digestURI_rejected_def)
qed

lemma handleChallenged_no_panic: "fst (handleChallenged env elem d) \<noteq> Panic"
  by (simp add: handleChallenged_def digestURI_rejected_eq Let_def
      split: option.splits sum.splits bool.splits)

text \<open>
  Claim C10.  The digest-URI check never takes the slice \<open>digestURI[5:]\<close> out of
  bounds.  The slice would panic exactly for a string shorter than five bytes; it is
  taken only after the test for the prefix \<open>xmpp/\<close> has succeeded, which makes the
  string at least five bytes long.  So the check has a result for every string, the
  empty one too, and neither the handler of the challenged state nor \<open>ProcessElement\<close>
  panics.
\<close>

theorem digestURI_slice_in_bounds:
  "(\<exists>b. digestURI_rejected uri domain = Some b)
   \<and> (HasPrefix uri ''xmpp/'' \<longrightarrow> 5 \<le> length uri \<and> slice_from uri 5 = Some (drop 5 uri))
   \<and> (slice_from uri 5 = None \<longleftrightarrow> length uri < 5)
   \<and> digestURI_rejected [] domain = Some True
   \<and> returned (handleChallenged env elem d) \<noteq> Panic
   \<and> returned (ProcessElement env elem d) \<noteq> Panic"
proof -
  have a: "\<exists>b. digestURI_rejected uri domain = Some b"
    by (simp add: digestURI_rejected_eq)
  have b: "HasPrefix uri ''xmpp/'' \<longrightarrow> 5 \<le> length uri \<and> slice_from uri 5 = Some (drop 5 uri)"
    using HasPrefix_xmpp_length [of uri] by (auto simp: slice_from_def)
  have c: "slice_from uri 5 = None \<longleftrightarrow> length uri < 5"
    by (auto simp: slice_from_def)
  have d: "digestURI_rejected [] domain = Some True"
    by (simp add: digestURI_rejected_def HasPrefix_def)
  have e: "returned (handleChallenged env elem d) \<noteq> Panic"
    by (simp add: returned_def handleChallenged_no_panic)
  have f: "returned (ProcessElement env elem d) \<noteq> Panic"
    using handleChallenged_no_panic [of env elem d]
    by (simp add: returned_def ProcessElement_def handleStart_def handleAuthenticated_def Let_def
        split: digestMD5State.splits)
  from a b c d e f show ?thesis by blast
qed

theorem digestURI_slice_in_bounds_witness:
  "HasPrefix ''xmpp/example.com'' ''xmpp/''
   \<and> slice_from ''xmpp/example.com'' 5 = Some ''example.com''
   \<and> digestURI_rejected ''xmpp/example.com'' ''example.com'' = Some False
   \<and> slice_from ''xmp'' 5 = None
   \<and> digestURI_rejected ''xmp'' ''example.com'' = Some True"
  using digestURI_slice_in_bounds [of "''xmpp/example.com''" "''example.com''" example_env
      auth_elem newDigestMD5]
    digestURI_slice_in_bounds [of "''xmp''" "''example.com''" example_env auth_elem newDigestMD5]
  by (simp add: HasPrefix_def slice_from_def digestURI_rejected_def)

section \<open>The validation of a response\<close>

text \<open>The handler on a payload that decodes, with the digest-URI check resolved.\<close>

lemma handleChallenged_decoded:
  assumes "elem_text elem \<noteq> []" and "base64_DecodeString (elem_text elem) = Some b"
  shows "handleChallenged env elem d =
     (let p = parseParameters b; res = FetchUser env (username p) in
      if realm p \<noteq> Domain env then (Return (Some errSASLNotAuthorized), d, [])
      else if nc p \<noteq> ''00000001'' then (Return (Some errSASLNotAuthorized), d, [])
      else if qop p \<noteq> ''auth'' then (Return (Some errSASLNotAuthorized), d, [])
      else if servType p \<noteq> [] \<and> servType p \<noteq> ''xmpp''
        then (Return (Some errSASLNotAuthorized), d, [])
      else if digestURI p \<noteq> ''xmpp/'' @ Domain env
        then (Return (Some errSASLNotAuthorized), d, [])
      else case res of
          Inl e \<Rightarrow> (Return (Some (errFromStorage e)), d, [Fetched (username p) res])
        | Inr None \<Rightarrow> (Return (Some errSASLNotAuthorized), d, [Fetched (username p) res])
        | Inr (Some u) \<Rightarrow>
            if computeResponse p u True \<noteq> response p
            then (Return (Some errSASLNotAuthorized), d, [Fetched (username p) res])
            else accepted env p u d)"
  using assms
  by (simp add: handleChallenged_def digestURI_rejected_eq accepted_def NewElementNamespace_def
      SetText_def Let_def split: sum.splits option.splits)

lemma handleChallenged_cases:
  "handleChallenged env elem d = (r, d', fx) \<Longrightarrow>
     (d' = d \<and> (\<exists>e. r = Return (Some e)))
     \<or> (r = Return None \<and> (\<exists>q u. Fetched q (Inr (Some u)) \<in> set fx
           \<and> d' = d\<lparr>d_username := Username u, d_state := authenticatedDigestMD5State\<rparr>))"
  by (auto simp: handleChallenged_def digestURI_rejected_eq Let_def
      split: if_splits option.splits sum.splits bool.splits)

subsection \<open>The sample deployment, evaluated\<close>

lemma env_fields:
  "Domain example_env = ''example.com''" "FetchUser example_env = example_store"
  "saslNamespace example_env = sasl_ns"
  "Domain failing_env = ''example.com''" "FetchUser failing_env = failing_store"
  "Domain nameless_env = ''example.com''" "FetchUser nameless_env = nameless_store"
  "saslNamespace nameless_env = sasl_ns"
  by (simp_all add: example_env_def failing_env_def nameless_env_def)

lemma example_text: "elem_text example_response \<noteq> []"
  by (simp add: example_response_def)

lemma example_checks: "first_failure (checks example_env example_params) = None"
  by (simp add: checks_def example_fields env_fields example_store_def example_client_digest)

lemma example_rspauth:
  "base64_EncodeToString (''rspauth='' @ ''9ab263e7ae7b419c6df71f11a764ad23'')
     = ''cnNwYXV0aD05YWIyNjNlN2FlN2I0MTljNmRmNzFmMTFhNzY0YWQyMw==''"
  by code_simp

lemma example_accepted:
  "accepted example_env example_params alice d =
     (Return None,
      d\<lparr>d_username := ''alice'', d_state := authenticatedDigestMD5State\<rparr>,
      [Fetched ''alice'' (Inr (Some alice)), Sent example_rspauth_elem])"
  by (simp only: accepted_def env_fields example_fields alice_fields example_server_digest
      example_rspauth example_rspauth_elem_def)

lemma example_accept:
  "handleChallenged example_env example_response d = accepted example_env example_params alice d"
  unfolding handleChallenged_decoded [OF example_text example_decode] example_parse
  by (simp add: example_fields env_fields example_store_def example_client_digest)

lemma replay_text: "elem_text replay_response \<noteq> []"
  by (simp add: replay_response_def)

lemma replay_parse:
  "map_option parseParameters (base64_DecodeString (elem_text replay_response))
     = Some replay_params"
  by code_simp

lemma replay_decode:
  "\<exists>b. base64_DecodeString (elem_text replay_response) = Some b
       \<and> parseParameters b = replay_params"
  using replay_parse by auto

lemma replay_fields:
  "realm replay_params = ''example.com''" "nc replay_params = ''00000002''"
  by (simp_all add: replay_params_def example_params_def)

lemma replay_checks: "first_failure (checks example_env replay_params) = Some 1"
  by (simp add: checks_def replay_fields env_fields)

lemma replay_reject:
  "handleChallenged example_env replay_response d = (Return (Some errSASLNotAuthorized), d, [])"
proof -
  from replay_decode obtain b
    where b: "base64_DecodeString (elem_text replay_response) = Some b"
      and p: "parseParameters b = replay_params" by blast
  show ?thesis
    unfolding handleChallenged_decoded [OF replay_text b] p
    by (simp add: replay_fields env_fields)
qed

lemma garbled_decode: "base64_DecodeString (elem_text garbled_response) = None"
  by code_simp

lemma challenged_fields:
  "d_state challenged = challengedDigestMD5State" "d_authenticated challenged = False"
  by (simp_all add: challenged_def)

text \<open>
  Claim C2, as the code has it.  For a response element in the challenged state whose
  payload is not empty and decodes from base64, the handler validates the parsed
  parameters in the order realm, nonce count, quality of protection, service type (an
  absent one is accepted), digest URI (the prefix \<open>xmpp/\<close> and then exactly the domain),
  lookup of the user, client digest, and the first check that fails decides: the result
  is the error of that check, the session is unchanged, and the storage is asked only
  when the first five checks have passed.  When no check fails, the user was found and
  the response is accepted.
\<close>

theorem handleChallenged_validation_order:
  assumes "elem_text elem \<noteq> []" and "base64_DecodeString (elem_text elem) = Some b"
  shows "(first_failure (checks env (parseParameters b)) = Some k \<longrightarrow>
            k < 7
            \<and> handleChallenged env elem d =
              (Return (Some (failure_error k (FetchUser env (username (parseParameters b))))), d,
               failure_effects k (username (parseParameters b))
                 (FetchUser env (username (parseParameters b)))))
       \<and> (first_failure (checks env (parseParameters b)) = None \<longrightarrow>
            (\<exists>u. FetchUser env (username (parseParameters b)) = Inr (Some u)
               \<and> handleChallenged env elem d = accepted env (parseParameters b) u d))"
  unfolding handleChallenged_decoded [OF assms]
  by (auto simp: checks_def failure_error_def failure_effects_def Let_def
      split: sum.splits option.splits)

theorem handleChallenged_validation_order_witness:
  "first_failure (checks example_env example_params) = None
   \<and> handleChallenged example_env example_response challenged
       = accepted example_env example_params alice challenged
   \<and> first_failure (checks example_env replay_params) = Some 1
   \<and> handleChallenged example_env replay_response challenged
       = (Return (Some errSASLNotAuthorized), challenged, [])"
proof -
  from replay_decode obtain b
    where b: "base64_DecodeString (elem_text replay_response) = Some b"
      and p: "parseParameters b = replay_params" by blast
  have "handleChallenged example_env example_response challenged
       = accepted example_env example_params alice challenged"
    using handleChallenged_validation_order [OF example_text example_decode,
        of example_env 0 challenged]
    by (auto simp: example_parse example_checks example_fields env_fields example_store_def)
  moreover have "handleChallenged example_env replay_response challenged
       = (Return (Some errSASLNotAuthorized), challenged, [])"
    using handleChallenged_validation_order [OF replay_text b, of example_env 1 challenged]
    by (simp add: p replay_checks failure_error_def failure_effects_def
        split: sum.splits)
  ultimately show ?thesis
    by (simp add: example_checks replay_checks)
qed

lemma nameless_text: "elem_text nameless_response \<noteq> []"
  by (simp add: nameless_response_def)

lemma nameless_parse:
  "map_option parseParameters (base64_DecodeString (elem_text nameless_response))
     = Some nameless_params"
  by code_simp

lemma nameless_decode:
  "\<exists>b. base64_DecodeString (elem_text nameless_response) = Some b
       \<and> parseParameters b = nameless_params"
  using nameless_parse by auto

lemma nameless_fields:
  "username nameless_params = []" "realm nameless_params = ''example.com''"
  "nc nameless_params = ''00000001''" "qop nameless_params = ''auth''"
  "servType nameless_params = []" "digestURI nameless_params = ''xmpp/example.com''"
  "response nameless_params = ''1a17df9475be8b0c5bf0714838364a07''"
  by (simp_all add: nameless_params_def)

text \<open>
  Claim C2 as the specification states it covers every payload that decodes.  The
  empty payload decodes, to the empty string, whose parameters fail the first check;
  but the handler refuses the empty payload before it decodes anything, with the
  malformed-request error and not with the error of the validation.
\<close>

theorem handleChallenged_empty_payload_counterexample:
  "base64_DecodeString (elem_text ack_elem) = Some []
   \<and> first_failure (checks example_env (parseParameters [])) = Some 0
   \<and> failure_error 0 (FetchUser example_env (username (parseParameters [])))
       = errSASLNotAuthorized
   \<and> handleChallenged example_env ack_elem challenged
       = (Return (Some errSASLMalformedRequest), challenged, [])"
proof -
  have p: "parseParameters [] = zeroParameters"
    by (simp add: parseParameters_def setParameter_def SplitKeyAndValue_def TrimPrefix_def
        TrimSuffix_def HasPrefix_def HasSuffix_def)
  have a: "base64_DecodeString (elem_text ack_elem) = Some []"
    by (simp add: ack_elem_def base64_DecodeString_def)
  have b: "first_failure (checks example_env (parseParameters [])) = Some 0"
    by (simp add: p checks_def zeroParameters_def env_fields)
  have c: "failure_error 0 (FetchUser example_env (username (parseParameters [])))
       = errSASLNotAuthorized"
    by (simp add: p failure_error_def zeroParameters_def env_fields example_store_def)
  have d: "handleChallenged example_env ack_elem challenged
       = (Return (Some errSASLMalformedRequest), challenged, [])"
    by (simp add: handleChallenged_def ack_elem_def)
  from a b c d show ?thesis by simp
qed

text \<open>
  Claim C4.  The seven ways in which the validation refuses a response (realm, nonce
  count, quality of protection, service type, digest URI, user not found, digest of
  the client) all return the same error value, the uniform not-authorized error, and
  leave the session as it was: the returned error does not tell which check failed.
\<close>

theorem handleChallenged_uniform_failure:
  assumes "elem_text elem \<noteq> []" and "base64_DecodeString (elem_text elem) = Some b"
    and "p = parseParameters b"
    and "realm p \<noteq> Domain env
       \<or> nc p \<noteq> ''00000001''
       \<or> qop p \<noteq> ''auth''
       \<or> (servType p \<noteq> [] \<and> servType p \<noteq> ''xmpp'')
       \<or> digestURI p \<noteq> ''xmpp/'' @ Domain env
       \<or> FetchUser env (username p) = Inr None
       \<or> (\<exists>u. FetchUser env (username p) = Inr (Some u)
              \<and> computeResponse p u True \<noteq> response p)"
  shows "returned (handleChallenged env elem d) = Return (Some errSASLNotAuthorized)
       \<and> session_after (handleChallenged env elem d) = d"
  using assms(3,4) unfolding handleChallenged_decoded [OF assms(1,2)]
  by (auto simp: returned_def session_after_def Let_def split: sum.splits option.splits)

theorem handleChallenged_uniform_failure_witness:
  "returned (handleChallenged example_env replay_response challenged)
     = Return (Some errSASLNotAuthorized)
   \<and> session_after (handleChallenged example_env replay_response challenged) = challenged
   \<and> returned (handleChallenged example_env nameless_response challenged)
     = Return (Some errSASLNotAuthorized)
   \<and> session_after (handleChallenged example_env nameless_response challenged) = challenged"
proof -
  from replay_decode obtain b
    where b: "base64_DecodeString (elem_text replay_response) = Some b"
      and p: "replay_params = parseParameters b" by metis
  from nameless_decode obtain c
    where c: "base64_DecodeString (elem_text nameless_response) = Some c"
      and q: "nameless_params = parseParameters c" by metis
  have "nc replay_params \<noteq> ''00000001''"
    by (simp add: replay_fields)
  with handleChallenged_uniform_failure [OF replay_text b p, of example_env challenged]
  have "returned (handleChallenged example_env replay_response challenged)
          = Return (Some errSASLNotAuthorized)
        \<and> session_after (handleChallenged example_env replay_response challenged) = challenged"
    by blast
  moreover have "FetchUser example_env (username nameless_params) = Inr None"
    by (simp add: env_fields nameless_fields example_store_def)
  with handleChallenged_uniform_failure [OF nameless_text c q, of example_env challenged]
  have "returned (handleChallenged example_env nameless_response challenged)
          = Return (Some errSASLNotAuthorized)
        \<and> session_after (handleChallenged example_env nameless_response challenged) = challenged"
    by blast
  ultimately show ?thesis by blast
qed

text \<open>
  Claim C6.  In the challenged state the three other kinds of error are reported as
  themselves.  An empty payload returns the malformed-request error; it does so before
  any decoding, since the empty string would decode.  A payload that does not decode
  from base64 returns the incorrect-encoding error.  Whenever the lookup of the user
  takes place and fails, the error of the storage is returned as it is, and the lookup
  takes place when the first five checks have passed.  The three errors differ from
  each other and from the not-authorized error, and the session is unchanged in each
  case.
\<close>

theorem handleChallenged_other_errors:
  "(elem_text elem = [] \<longrightarrow>
      handleChallenged env elem d = (Return (Some errSASLMalformedRequest), d, []))
   \<and> base64_DecodeString [] = Some []
   \<and> (base64_DecodeString (elem_text elem) = None \<longrightarrow>
      handleChallenged env elem d = (Return (Some errSASLIncorrectEncoding), d, []))
   \<and> (Fetched q (Inl e) \<in> set (effects_of (handleChallenged env elem d)) \<longrightarrow>
      returned (handleChallenged env elem d) = Return (Some (errFromStorage e))
      \<and> session_after (handleChallenged env elem d) = d)
   \<and> (elem_text elem \<noteq> [] \<and> base64_DecodeString (elem_text elem) = Some b
        \<and> first_failure (take 5 (checks env (parseParameters b))) = None \<longrightarrow>
      effects_of (handleChallenged env elem d) \<noteq> []
      \<and> hd (effects_of (handleChallenged env elem d))
          = Fetched (username (parseParameters b))
              (FetchUser env (username (parseParameters b))))
   \<and> distinct [errSASLMalformedRequest, errSASLIncorrectEncoding, errFromStorage e,
                errSASLNotAuthorized]"
proof -
  have a: "elem_text elem = [] \<longrightarrow>
      handleChallenged env elem d = (Return (Some errSASLMalformedRequest), d, [])"
    by (simp add: handleChallenged_def)
  have b: "base64_DecodeString [] = Some []"
    by (simp add: base64_DecodeString_def)
  have c: "base64_DecodeString (elem_text elem) = None \<longrightarrow>
      handleChallenged env elem d = (Return (Some errSASLIncorrectEncoding), d, [])"
    using b by (cases "elem_text elem = []") (simp_all add: handleChallenged_def)
  have d: "Fetched q (Inl e) \<in> set (effects_of (handleChallenged env elem d)) \<longrightarrow>
      returned (handleChallenged env elem d) = Return (Some (errFromStorage e))
      \<and> session_after (handleChallenged env elem d) = d"
    by (auto simp: handleChallenged_def digestURI_rejected_eq effects_of_def returned_def
        session_after_def Let_def split: if_splits option.splits sum.splits bool.splits)
  have f: "elem_text elem \<noteq> [] \<and> base64_DecodeString (elem_text elem) = Some b
        \<and> first_failure (take 5 (checks env (parseParameters b))) = None \<longrightarrow>
      effects_of (handleChallenged env elem d) \<noteq> []
      \<and> hd (effects_of (handleChallenged env elem d))
          = Fetched (username (parseParameters b))
              (FetchUser env (username (parseParameters b)))"
  proof (intro impI, elim conjE)
    assume h: "elem_text elem \<noteq> []" "base64_DecodeString (elem_text elem) = Some b"
      and g: "first_failure (take 5 (checks env (parseParameters b))) = None"
    from g show "effects_of (handleChallenged env elem d) \<noteq> []
      \<and> hd (effects_of (handleChallenged env elem d))
          = Fetched (username (parseParameters b))
              (FetchUser env (username (parseParameters b)))"
      unfolding handleChallenged_decoded [OF h]
      by (auto simp: checks_def effects_of_def accepted_def Let_def
          split: if_splits sum.splits option.splits)
  qed
  have e: "distinct [errSASLMalformedRequest, errSASLIncorrectEncoding, errFromStorage e,
                errSASLNotAuthorized]"
    by simp
  from a b c d f e show ?thesis by blast
qed

theorem handleChallenged_other_errors_witness:
  "handleChallenged example_env ack_elem challenged
     = (Return (Some errSASLMalformedRequest), challenged, [])
   \<and> handleChallenged example_env garbled_response challenged
     = (Return (Some errSASLIncorrectEncoding), challenged, [])
   \<and> effects_of (handleChallenged failing_env example_response challenged)
     = [Fetched ''alice'' (Inl ErrMockedError)]
   \<and> returned (handleChallenged failing_env example_response challenged)
     = Return (Some (errFromStorage ErrMockedError))
   \<and> session_after (handleChallenged failing_env example_response challenged) = challenged"
proof -
  have "elem_text ack_elem = []"
    by (simp add: ack_elem_def)
  with handleChallenged_other_errors [of ack_elem example_env challenged]
  have a: "handleChallenged example_env ack_elem challenged
     = (Return (Some errSASLMalformedRequest), challenged, [])"
    by blast
  from garbled_decode handleChallenged_other_errors [of garbled_response example_env challenged]
  have b: "handleChallenged example_env garbled_response challenged
     = (Return (Some errSASLIncorrectEncoding), challenged, [])"
    by blast
  have fx: "effects_of (handleChallenged failing_env example_response challenged)
     = [Fetched ''alice'' (Inl ErrMockedError)]"
    unfolding handleChallenged_decoded [OF example_text example_decode] example_parse
    by (simp add: effects_of_def example_fields env_fields failing_store_def)
  then have "Fetched ''alice'' (Inl ErrMockedError)
      \<in> set (effects_of (handleChallenged failing_env example_response challenged))"
    by simp
  with handleChallenged_other_errors [of example_response failing_env challenged "''alice''"
      ErrMockedError]
  have c: "returned (handleChallenged failing_env example_response challenged)
       = Return (Some (errFromStorage ErrMockedError))
     \<and> session_after (handleChallenged failing_env example_response challenged) = challenged"
    by blast
  from a b fx c show ?thesis by blast
qed

section \<open>The session\<close>

text \<open>
  Claim C3.  Whenever \<open>ProcessElement\<close> returns an error (an element that the state
  does not expect, a malformed or undecodable payload, a failed validation, an error of
  the storage), the session is exactly as before the call: state, user name and flag.
  \<open>ProcessElement\<close> never moves the state backward; \<open>Reset\<close> is what returns to the
  start.
\<close>

theorem ProcessElement_error_keeps_session:
  "(returned (ProcessElement env elem d) = Return (Some e) \<longrightarrow>
      session_after (ProcessElement env elem d) = d)
   \<and> state_rank (d_state d) \<le> state_rank (d_state (session_after (ProcessElement env elem d)))
   \<and> d_state (Reset d) = startDigestMD5State"
proof -
  obtain r d' fx where hc: "handleChallenged env elem d = (r, d', fx)"
    by (cases "handleChallenged env elem d") auto
  note cs = handleChallenged_cases [OF hc]
  have a: "returned (ProcessElement env elem d) = Return (Some e) \<longrightarrow>
      session_after (ProcessElement env elem d) = d"
    using cs hc
    by (auto simp: ProcessElement_def returned_def session_after_def handleStart_def
        handleAuthenticated_def Let_def split: digestMD5State.splits)
  have b: "state_rank (d_state d)
      \<le> state_rank (d_state (session_after (ProcessElement env elem d)))"
    using cs hc
    by (auto simp: ProcessElement_def session_after_def handleStart_def
        handleAuthenticated_def Let_def split: digestMD5State.splits)
  have c: "d_state (Reset d) = startDigestMD5State"
    by (simp add: Reset_def)
  from a b c show ?thesis by blast
qed

theorem ProcessElement_error_keeps_session_witness:
  "returned (ProcessElement example_env replay_response challenged)
     = Return (Some errSASLNotAuthorized)
   \<and> session_after (ProcessElement example_env replay_response challenged) = challenged
   \<and> returned (ProcessElement example_env example_response newDigestMD5)
     = Return (Some errSASLNotAuthorized)
   \<and> session_after (ProcessElement example_env example_response newDigestMD5) = newDigestMD5"
proof -
  have a: "returned (ProcessElement example_env replay_response challenged)
     = Return (Some errSASLNotAuthorized)"
    by (simp add: ProcessElement_def Authenticated_def challenged_fields replay_response_def
        replay_reject [unfolded replay_response_def] returned_def)
  have b: "returned (ProcessElement example_env example_response newDigestMD5)
     = Return (Some errSASLNotAuthorized)"
    by (simp add: ProcessElement_def Authenticated_def newDigestMD5_def example_response_def
        returned_def)
  from a b
    ProcessElement_error_keeps_session [of example_env replay_response challenged
      errSASLNotAuthorized]
    ProcessElement_error_keeps_session [of example_env example_response newDigestMD5
      errSASLNotAuthorized]
  show ?thesis by blast
qed

text \<open>
  Claim C8.  Once the flag of the session is true, \<open>ProcessElement\<close> on any element
  returns no error, leaves state, user name and flag as they are, and sends nothing.
\<close>

theorem ProcessElement_authenticated_noop:
  "d_authenticated d \<Longrightarrow> ProcessElement env elem d = (Return None, d, [])"
  by (simp add: ProcessElement_def Authenticated_def)

theorem ProcessElement_authenticated_noop_witness:
  "d_authenticated example_done
   \<and> ProcessElement example_env auth_elem example_done = (Return None, example_done, [])
   \<and> ProcessElement example_env example_response example_done = (Return None, example_done, [])"
proof -
  have a: "d_authenticated example_done"
    by (simp add: example_done_def)
  from a ProcessElement_authenticated_noop [OF a, of example_env auth_elem]
    ProcessElement_authenticated_noop [OF a, of example_env example_response]
  show ?thesis by simp
qed

subsection \<open>Where the name of an authenticated session comes from\<close>

lemma reachable_invariant:
  "reachable d tr \<Longrightarrow>
     (d_authenticated d \<longrightarrow> d_state d = authenticatedDigestMD5State)
     \<and> (d_state d = authenticatedDigestMD5State \<longrightarrow>
          (\<exists>q u. Fetched q (Inr (Some u)) \<in> set tr \<and> d_username d = Username u))"
proof (induction rule: reachable.induct)
  case reachable_new
  show ?case by (simp add: newDigestMD5_def)
next
  case (reachable_process d tr env elem r d' fx)
  obtain r2 d2 fx2 where hc: "handleChallenged env elem d = (r2, d2, fx2)"
    by (cases "handleChallenged env elem d") auto
  note cs = handleChallenged_cases [OF hc]
  from reachable_process.IH reachable_process.hyps(2) cs hc show ?case
    by (auto simp: ProcessElement_def Authenticated_def handleStart_def
        handleAuthenticated_def Let_def split: if_splits digestMD5State.splits) blast+
next
  case (reachable_reset d tr)
  show ?case by (simp add: Reset_def)
qed

text \<open>The handshake of the sample deployment, step by step.\<close>

lemma example_start:
  "ProcessElement example_env auth_elem newDigestMD5
     = (Return None, challenged, [Sent example_challenge])"
  by code_simp

lemma example_second:
  "ProcessElement example_env example_response challenged
     = (Return None, example_pending,
        [Fetched ''alice'' (Inr (Some alice)), Sent example_rspauth_elem])"
  using example_accept [of challenged] example_accepted [of challenged]
  by (simp add: ProcessElement_def Authenticated_def challenged_def example_response_def
      example_pending_def)

lemma example_third:
  "ProcessElement example_env ack_elem example_pending
     = (Return None, example_done, [Sent success_elem])"
  by (simp add: ProcessElement_def Authenticated_def handleAuthenticated_def ack_elem_def
      example_pending_def example_done_def success_elem_def NewElementNamespace_def env_fields)

lemma example_reachable: "reachable example_done example_trace"
proof -
  have "reachable challenged ([] @ [Sent example_challenge])"
    by (rule reachable_process [OF reachable_new example_start])
  then have "reachable example_pending
      (([] @ [Sent example_challenge])
        @ [Fetched ''alice'' (Inr (Some alice)), Sent example_rspauth_elem])"
    by (rule reachable_process [OF _ example_second])
  then have "reachable example_done
      ((([] @ [Sent example_challenge])
        @ [Fetched ''alice'' (Inr (Some alice)), Sent example_rspauth_elem])
        @ [Sent success_elem])"
    by (rule reachable_process [OF _ example_third])
  then show ?thesis by (simp add: example_trace_def)
qed

text \<open>The same handshake against the storage that holds the user without a name.\<close>

lemma nameless_client_digest:
  "computeResponse nameless_params nameless True = ''1a17df9475be8b0c5bf0714838364a07''"
  by code_simp

lemma nameless_start:
  "ProcessElement nameless_env auth_elem newDigestMD5
     = (Return None, challenged, [Sent example_challenge])"
  by code_simp

lemma nameless_second:
  "ProcessElement nameless_env nameless_response challenged
     = accepted nameless_env nameless_params nameless challenged"
proof -
  from nameless_decode obtain b
    where b: "base64_DecodeString (elem_text nameless_response) = Some b"
      and p: "parseParameters b = nameless_params" by blast
  have "handleChallenged nameless_env nameless_response challenged
     = accepted nameless_env nameless_params nameless challenged"
    unfolding handleChallenged_decoded [OF nameless_text b] p
    by (simp add: nameless_fields env_fields nameless_store_def nameless_client_digest)
  moreover have "elem_name nameless_response = ''response''"
    by (simp add: nameless_response_def)
  ultimately show ?thesis
    by (simp add: ProcessElement_def Authenticated_def challenged_fields)
qed

lemma nameless_accepted:
  "session_after (accepted nameless_env nameless_params nameless challenged) = nameless_pending"
  by (simp add: session_after_def accepted_def nameless_def challenged_def nameless_pending_def)

lemma nameless_third:
  "ProcessElement nameless_env ack_elem nameless_pending
     = (Return None, nameless_done, [Sent success_elem])"
  by (simp add: ProcessElement_def Authenticated_def handleAuthenticated_def ack_elem_def
      nameless_pending_def nameless_done_def success_elem_def NewElementNamespace_def env_fields)

text \<open>
  Claim C5, as the code has it.  In every reachable session whose flag is true, the
  state is the last one and the user name is the \<open>Username\<close> field of a credential
  that a lookup of this session returned.  The name is not empty when no lookup of the
  session returned a credential with an empty name; the authenticator itself does not
  look at the name it is given.  A new session and a session after \<open>Reset\<close> have the
  flag false and the user name empty.
\<close>

theorem authenticated_username_from_lookup:
  "(reachable d tr \<and> d_authenticated d \<longrightarrow>
      d_state d = authenticatedDigestMD5State
      \<and> (\<exists>q u. Fetched q (Inr (Some u)) \<in> set tr \<and> d_username d = Username u))
   \<and> (reachable d tr \<and> d_authenticated d
        \<and> (\<forall>q u. Fetched q (Inr (Some u)) \<in> set tr \<longrightarrow> Username u \<noteq> []) \<longrightarrow>
      d_username d \<noteq> [])
   \<and> \<not> d_authenticated newDigestMD5 \<and> d_username newDigestMD5 = []
   \<and> \<not> d_authenticated (Reset d0) \<and> d_username (Reset d0) = []"
proof -
  have a: "reachable d tr \<and> d_authenticated d \<longrightarrow>
      d_state d = authenticatedDigestMD5State
      \<and> (\<exists>q u. Fetched q (Inr (Some u)) \<in> set tr \<and> d_username d = Username u)"
    using reachable_invariant [of d tr] by blast
  then have b: "reachable d tr \<and> d_authenticated d
        \<and> (\<forall>q u. Fetched q (Inr (Some u)) \<in> set tr \<longrightarrow> Username u \<noteq> []) \<longrightarrow>
      d_username d \<noteq> []"
    by metis
  have c: "\<not> d_authenticated newDigestMD5 \<and> d_username newDigestMD5 = []"
    by (simp add: newDigestMD5_def)
  have e: "\<not> d_authenticated (Reset d0) \<and> d_username (Reset d0) = []"
    by (simp add: Reset_def)
  from a b c e show ?thesis by blast
qed

theorem authenticated_username_from_lookup_witness:
  "reachable example_done example_trace
   \<and> d_authenticated example_done
   \<and> d_state example_done = authenticatedDigestMD5State
   \<and> Fetched ''alice'' (Inr (Some alice)) \<in> set example_trace
   \<and> d_username example_done = Username alice
   \<and> d_username example_done \<noteq> []"
proof -
  have a: "d_authenticated example_done"
    by (simp add: example_done_def)
  have n: "\<forall>q u. Fetched q (Inr (Some u)) \<in> set example_trace \<longrightarrow> Username u \<noteq> []"
    by (auto simp: example_trace_def alice_def)
  from example_reachable a n
    authenticated_username_from_lookup [of example_done example_trace newDigestMD5]
  have "d_state example_done = authenticatedDigestMD5State \<and> d_username example_done \<noteq> []"
    by blast
  with example_reachable a show ?thesis
    by (simp add: example_trace_def example_done_def alice_def)
qed

text \<open>
  Claim C5 as the specification states it asks for a user name that is not empty.  A
  storage that holds a credential with the empty name, and a response without
  \<open>username\<close> that carries the digest of that credential, lead through the whole
  handshake to a session with the flag true and the user name empty.
\<close>

theorem authenticated_empty_username_counterexample:
  "session_after (ProcessElement nameless_env ack_elem
     (session_after (ProcessElement nameless_env nameless_response
       (session_after (ProcessElement nameless_env auth_elem newDigestMD5))))) = nameless_done
   \<and> reachable nameless_done
       (effects_of (ProcessElement nameless_env auth_elem newDigestMD5)
        @ effects_of (ProcessElement nameless_env nameless_response challenged)
        @ effects_of (ProcessElement nameless_env ack_elem nameless_pending))
   \<and> d_authenticated nameless_done
   \<and> d_username nameless_done = []"
proof -
  have s1: "session_after (ProcessElement nameless_env auth_elem newDigestMD5) = challenged"
    by (simp add: nameless_start session_after_def)
  have s2: "session_after (ProcessElement nameless_env nameless_response challenged)
      = nameless_pending"
    by (simp add: nameless_second nameless_accepted)
  have s3: "session_after (ProcessElement nameless_env ack_elem nameless_pending) = nameless_done"
    by (simp add: nameless_third session_after_def)
  have r1: "reachable challenged
      ([] @ effects_of (ProcessElement nameless_env auth_elem newDigestMD5))"
    by (rule reachable_process [OF reachable_new, of nameless_env auth_elem "Return None"])
      (simp add: nameless_start effects_of_def)
  have "ProcessElement nameless_env nameless_response challenged
      = (returned (ProcessElement nameless_env nameless_response challenged), nameless_pending,
         effects_of (ProcessElement nameless_env nameless_response challenged))"
    using s2 by (cases "ProcessElement nameless_env nameless_response challenged")
      (simp add: returned_def session_after_def effects_of_def)
  from reachable_process [OF r1 this]
  have r2: "reachable nameless_pending
      (([] @ effects_of (ProcessElement nameless_env auth_elem newDigestMD5))
        @ effects_of (ProcessElement nameless_env nameless_response challenged))" .
  have "ProcessElement nameless_env ack_elem nameless_pending
      = (Return None, nameless_done,
         effects_of (ProcessElement nameless_env ack_elem nameless_pending))"
    by (simp add: nameless_third effects_of_def)
  from reachable_process [OF r2 this]
  have r3: "reachable nameless_done
      ((([] @ effects_of (ProcessElement nameless_env auth_elem newDigestMD5))
        @ effects_of (ProcessElement nameless_env nameless_response challenged))
        @ effects_of (ProcessElement nameless_env ack_elem nameless_pending))" .
  from r3 have r: "reachable nameless_done
       (effects_of (ProcessElement nameless_env auth_elem newDigestMD5)
        @ effects_of (ProcessElement nameless_env nameless_response challenged)
        @ effects_of (ProcessElement nameless_env ack_elem nameless_pending))"
    by simp
  from s1 s2 s3 r show ?thesis
    by (simp add: nameless_done_def)
qed

end
